theory Spec2Isabelle
  imports Complex_Main "HOL-Library.Sublist" "HOL-Library.Multiset" "HOL-Library.Word"
begin

section \<open>Data model (types.ts)\<close>

text \<open>
  JavaScript numbers that carry percentages and pixel coordinates are modelled as
  \<^typ>\<open>real\<close>: rounding, \<open>NaN\<close> and the infinities of IEEE doubles are outside the model.
  Page numbers and page indices are whole numbers and are modelled as \<^typ>\<open>int\<close>.
  An optional field (\<open>imageSnapshot?\<close>, \<open>pageIndex?\<close>) is an \<^typ>\<open>'a option\<close>,
  \<open>None\<close> standing for \<open>undefined\<close>. Field names carry a prefix where the source's
  name is a HOL constant or a common variable name.
\<close>

datatype MaskFillType = Solid | CloneTop | CloneBottom | CloneLeft | CloneRight

record Mask =
  mask_id :: string
  mask_x :: real
  mask_y :: real
  mask_width :: real
  mask_height :: real
  mask_color :: string
  fillType :: MaskFillType
  imageSnapshot :: "string option"
  pageIndex :: "int option"

record CropMargins =
  m_top :: real
  m_bottom :: real
  m_left :: real
  m_right :: real

datatype EditMode = CROP | MASK

section \<open>Mask store (the App component)\<close>

text \<open>
  The store is the \<open>masks\<close> state of the App component together with the selection.
  \<open>handleAddMask\<close> appends the mask, re-scoped to the current page, and selects it;
  \<open>handleUpdateMask\<close> maps over the list and replaces by id;
  \<open>handleDeleteMask\<close> filters by id and drops the selection when it was the deleted mask.
\<close>

record Store =
  masks :: "Mask list"
  selectedMaskId :: "string option"

definition handleAddMask :: "int \<Rightarrow> Store \<Rightarrow> Mask \<Rightarrow> Store" where
  "handleAddMask currentPage st newMask =
     (let maskWithPage = newMask\<lparr>pageIndex := Some (currentPage - 1)\<rparr>
      in st\<lparr>masks := masks st @ [maskWithPage], selectedMaskId := Some (mask_id newMask)\<rparr>)"

definition handleUpdateMask :: "Mask list \<Rightarrow> Mask \<Rightarrow> Mask list" where
  "handleUpdateMask ms updatedMask =
     map (\<lambda>m. if mask_id m = mask_id updatedMask then updatedMask else m) ms"

definition handleDeleteMask :: "Store \<Rightarrow> string \<Rightarrow> Store" where
  "handleDeleteMask st i =
     st\<lparr>masks := filter (\<lambda>m. mask_id m \<noteq> i) (masks st),
        selectedMaskId := (if selectedMaskId st = Some i then None else selectedMaskId st)\<rparr>"

section \<open>Page scoping (PdfPreview.tsx, pdfService.ts)\<close>

text \<open>
  The preview shows, on page \<open>currentPage\<close> (1-based), the masks that are global or
  scoped to the 0-based index \<open>currentPage - 1\<close>. The export loop selects, for the page
  of 0-based index \<open>i\<close>, the masks that are global or scoped to \<open>i\<close>.
\<close>

definition visibleMasks :: "Mask list \<Rightarrow> int \<Rightarrow> Mask list" where
  "visibleMasks ms currentPage =
     filter (\<lambda>m. pageIndex m = None \<or> pageIndex m = Some (currentPage - 1)) ms"

definition pageMasks :: "Mask list \<Rightarrow> int \<Rightarrow> Mask list" where
  "pageMasks ms i = filter (\<lambda>m. pageIndex m = None \<or> pageIndex m = Some i) ms"

section \<open>Crop margins and the mask editor (CropControls.tsx)\<close>

datatype MarginKey = KTop | KBottom | KLeft | KRight

text \<open>
  \<open>handleChange\<close> runs four independent \<open>if\<close> statements on \<open>safeValue\<close>, one per key,
  and then stores \<open>safeValue\<close> under the edited key.
\<close>

definition handleChange :: "CropMargins \<Rightarrow> MarginKey \<Rightarrow> real \<Rightarrow> CropMargins" where
  "handleChange margins key v =
     (let s0 = v;
          s1 = (if key = KTop \<and> v + m_bottom margins > 90 then 90 - m_bottom margins else s0);
          s2 = (if key = KBottom \<and> v + m_top margins > 90 then 90 - m_top margins else s1);
          s3 = (if key = KLeft \<and> v + m_right margins > 90 then 90 - m_right margins else s2);
          safeValue = (if key = KRight \<and> v + m_left margins > 90 then 90 - m_left margins else s3)
      in case key of
           KTop \<Rightarrow> margins\<lparr>m_top := safeValue\<rparr>
         | KBottom \<Rightarrow> margins\<lparr>m_bottom := safeValue\<rparr>
         | KLeft \<Rightarrow> margins\<lparr>m_left := safeValue\<rparr>
         | KRight \<Rightarrow> margins\<lparr>m_right := safeValue\<rparr>)"

text \<open>
  \<open>selectedMask\<close> is \<open>masks.find(m => m.id === selectedMaskId)\<close>: the first stored mask
  with the selected id, absent when nothing is selected.
\<close>

definition selectedMask :: "Store \<Rightarrow> Mask option" where
  "selectedMask st =
     (case selectedMaskId st of
        None \<Rightarrow> None
      | Some i \<Rightarrow> List.find (\<lambda>m. mask_id m = i) (masks st))"

text \<open>
  \<open>handleMaskChange (key, value)\<close> takes a key of \<open>Mask\<close> and a value for it; the pair
  is one constructor of \<open>MaskField\<close>. The controls call it with \<open>fillType\<close>, \<open>color\<close>,
  \<open>x\<close>, \<open>y\<close>, \<open>width\<close> and \<open>height\<close>. \<open>applyField\<close> is the object spread
  \<open>{ ...selectedMask, [key]: value }\<close>.
\<close>

datatype MaskField =
    FId string
  | FX real
  | FY real
  | FWidth real
  | FHeight real
  | FColor string
  | FFillType MaskFillType
  | FImageSnapshot "string option"
  | FPageIndex "int option"

fun applyField :: "MaskField \<Rightarrow> Mask \<Rightarrow> Mask" where
  "applyField (FId v) m = m\<lparr>mask_id := v\<rparr>"
| "applyField (FX v) m = m\<lparr>mask_x := v\<rparr>"
| "applyField (FY v) m = m\<lparr>mask_y := v\<rparr>"
| "applyField (FWidth v) m = m\<lparr>mask_width := v\<rparr>"
| "applyField (FHeight v) m = m\<lparr>mask_height := v\<rparr>"
| "applyField (FColor v) m = m\<lparr>mask_color := v\<rparr>"
| "applyField (FFillType v) m = m\<lparr>fillType := v\<rparr>"
| "applyField (FImageSnapshot v) m = m\<lparr>imageSnapshot := v\<rparr>"
| "applyField (FPageIndex v) m = m\<lparr>pageIndex := v\<rparr>"

fun isFillTypeKey :: "MaskField \<Rightarrow> bool" where
  "isFillTypeKey (FFillType v) = True"
| "isFillTypeKey f = False"

text \<open>
  The mask that \<open>handleMaskChange\<close> hands to \<open>onUpdateMask\<close>: the snapshot is set to
  \<open>undefined\<close> only under \<open>if (key === 'fillType')\<close>.
\<close>

definition maskChangeUpdate :: "Mask \<Rightarrow> MaskField \<Rightarrow> Mask" where
  "maskChangeUpdate sel f =
     (if isFillTypeKey f then (applyField f sel)\<lparr>imageSnapshot := None\<rparr>
      else applyField f sel)"

definition handleMaskChange :: "Store \<Rightarrow> MaskField \<Rightarrow> Store" where
  "handleMaskChange st f =
     (case selectedMask st of
        None \<Rightarrow> st
      | Some sel \<Rightarrow> st\<lparr>masks := handleUpdateMask (masks st) (maskChangeUpdate sel f)\<rparr>)"

definition scopeToggleUpdate :: "int \<Rightarrow> Mask \<Rightarrow> Mask" where
  "scopeToggleUpdate currentPage sel =
     (let newPageIndex = (if pageIndex sel \<noteq> None then None else Some (currentPage - 1))
      in sel\<lparr>pageIndex := newPageIndex\<rparr>)"

definition toggleMaskScope :: "int \<Rightarrow> Store \<Rightarrow> Store" where
  "toggleMaskScope currentPage st =
     (case selectedMask st of
        None \<Rightarrow> st
      | Some sel \<Rightarrow> st\<lparr>masks := handleUpdateMask (masks st) (scopeToggleUpdate currentPage sel)\<rparr>)"

section \<open>Pixel sampling (PdfPreview.tsx)\<close>

text \<open>
  The canvas and the container are the browser's objects; the model takes what the code
  reads from them as data. A \<open>Canvas\<close> has its raster size, whether \<open>getContext('2d')\<close>
  gives a context, the pixel that \<open>getImageData(x, y, 1, 1)\<close> reads (\<open>None\<close> when the
  call throws) and the data URL of a captured strip (\<open>None\<close> when \<open>getImageData\<close>
  throws or the temporary canvas gives no context). Colour channels are bytes.
\<close>

record Rect =
  r_left :: real
  r_top :: real
  r_width :: real
  r_height :: real

record Container =
  boundingRect :: Rect
  clientWidth :: real
  clientHeight :: real

record Canvas =
  cv_width :: real
  cv_height :: real
  cv_context :: bool
  cv_pixel :: "int \<Rightarrow> int \<Rightarrow> (8 word \<times> 8 word \<times> 8 word) option"
  cv_strip :: "real \<Rightarrow> real \<Rightarrow> real \<Rightarrow> real \<Rightarrow> string option"

definition digitChar :: "nat \<Rightarrow> char" where
  "digitChar d = ''0123456789abcdefghijklmnopqrstuvwxyz'' ! d"

text \<open>\<open>Number.prototype.toString(radix)\<close> on a non-negative whole number.\<close>

function toStringRadix :: "nat \<Rightarrow> nat \<Rightarrow> string" where
  "toStringRadix b n =
     (if b < 2 \<or> n < b then [digitChar n]
      else toStringRadix b (n div b) @ [digitChar (n mod b)])"
  by pat_completeness auto
termination
  by (relation "measure (\<lambda>(b, n). n)") auto

declare toStringRadix.simps [simp del]

text \<open>\<open>toUpperCase\<close> on one character of the ASCII range.\<close>

definition toUpperCaseChar :: "char \<Rightarrow> char" where
  "toUpperCaseChar c =
     (case map_of (zip ''abcdefghijklmnopqrstuvwxyz'' ''ABCDEFGHIJKLMNOPQRSTUVWXYZ'') c of
        None \<Rightarrow> c
      | Some u \<Rightarrow> u)"

definition rgbToHex :: "8 word \<Rightarrow> 8 word \<Rightarrow> 8 word \<Rightarrow> string" where
  "rgbToHex r g b =
     CHR ''#'' # map toUpperCaseChar
       (drop 1 (toStringRadix 16 (2 ^ 24 + unat r * 2 ^ 16 + unat g * 2 ^ 8 + unat b)))"

record PixelRect =
  pr_x :: real
  pr_y :: real
  pr_w :: real
  pr_h :: real

definition getDominantColor :: "Canvas option \<Rightarrow> Container option \<Rightarrow> PixelRect \<Rightarrow> string" where
  "getDominantColor canvas container rect =
     (case (canvas, container) of
        (Some cv, Some ct) \<Rightarrow>
          if \<not> cv_context cv then ''#FFFFFF''
          else
            (let displayW = clientWidth ct;
                 displayH = clientHeight ct;
                 scaleX = cv_width cv / displayW;
                 scaleY = cv_height cv / displayH;
                 px = \<lfloor>max 0 (pr_x rect * scaleX)\<rfloor>;
                 py = \<lfloor>max 0 (pr_y rect * scaleY)\<rfloor>
             in case cv_pixel cv px py of
                  None \<Rightarrow> ''#FFFFFF''
                | Some (r, g, b) \<Rightarrow> rgbToHex r g b)
      | _ \<Rightarrow> ''#FFFFFF'')"

definition captureMaskSnapshot :: "Canvas option \<Rightarrow> Mask \<Rightarrow> string option" where
  "captureMaskSnapshot canvas msk =
     (case canvas of
        None \<Rightarrow> None
      | Some cv \<Rightarrow>
          if fillType msk = Solid then None
          else if \<not> cv_context cv then None
          else
            (let canvasW = cv_width cv;
                 canvasH = cv_height cv;
                 x = (mask_x msk / 100) * canvasW;
                 y = (mask_y msk / 100) * canvasH;
                 w = (mask_width msk / 100) * canvasW;
                 h = (mask_height msk / 100) * canvasH
             in case fillType msk of
                  CloneTop \<Rightarrow> cv_strip cv x (max 0 (y - 1)) (max 1 w) 1
                | CloneBottom \<Rightarrow> cv_strip cv x (min (canvasH - 1) (y + h)) (max 1 w) 1
                | CloneLeft \<Rightarrow> cv_strip cv (max 0 (x - 1)) y 1 (max 1 h)
                | CloneRight \<Rightarrow> cv_strip cv (min (canvasW - 1) (x + w)) y 1 (max 1 h)
                | Solid \<Rightarrow> None))"

section \<open>Snapshot backfill after a render (PdfPreview.tsx)\<close>

text \<open>
  JavaScript truthiness of an optional string: \<open>undefined\<close> and the empty string are
  falsy. The effect tests \<open>!mask.imageSnapshot\<close> and \<open>if (snapshot)\<close>.
\<close>

definition truthy :: "string option \<Rightarrow> bool" where
  "truthy s = (case s of None \<Rightarrow> False | Some t \<Rightarrow> t \<noteq> [])"

definition needsSnapshot :: "Mask \<Rightarrow> bool" where
  "needsSnapshot msk = (fillType msk \<noteq> Solid \<and> \<not> truthy (imageSnapshot msk))"

text \<open>
  \<open>backfillWrites\<close> is the list of masks the effect hands to \<open>onUpdateMask\<close>, in call
  order: nothing while \<open>loading\<close>; otherwise, for every visible mask that needs a
  snapshot and whose capture gives a truthy string, the mask with that snapshot.
\<close>

definition backfillWrite :: "Canvas option \<Rightarrow> Mask \<Rightarrow> Mask list" where
  "backfillWrite canvas msk =
     (if needsSnapshot msk then
        (case captureMaskSnapshot canvas msk of
           None \<Rightarrow> []
         | Some snapshot \<Rightarrow>
             if snapshot \<noteq> [] then [msk\<lparr>imageSnapshot := Some snapshot\<rparr>] else [])
      else [])"

definition backfillWrites :: "Canvas option \<Rightarrow> bool \<Rightarrow> Mask list \<Rightarrow> int \<Rightarrow> Mask list" where
  "backfillWrites canvas loading ms currentPage =
     (if loading then []
      else concat (map (backfillWrite canvas) (visibleMasks ms currentPage)))"

text \<open>
  Every \<open>onUpdateMask\<close> call of one run of the effect is \<open>setMasks(masks.map(...))\<close> over
  the same \<open>masks\<close> of that render, so the store after the run is the last call's list
  (each call overwrites the one before), and the store is untouched when there is no call.
\<close>

definition runBackfill :: "Canvas option \<Rightarrow> bool \<Rightarrow> Mask list \<Rightarrow> int \<Rightarrow> Mask list" where
  "runBackfill canvas loading ms currentPage =
     (case backfillWrites canvas loading ms currentPage of
        [] \<Rightarrow> ms
      | w # ws \<Rightarrow> handleUpdateMask ms (last (w # ws)))"

section \<open>Interaction state machine (PdfPreview.tsx)\<close>

datatype InteractionState = IDLE | DRAWING | DRAGGING | RESIZING

datatype ResizeHandle = NW | N | NE | E | SE | S | SW | W

fun handleName :: "ResizeHandle \<Rightarrow> string" where
  "handleName NW = ''nw''"
| "handleName N = ''n''"
| "handleName NE = ''ne''"
| "handleName E = ''e''"
| "handleName SE = ''se''"
| "handleName S = ''s''"
| "handleName SW = ''sw''"
| "handleName W = ''w''"

text \<open>\<open>activeHandle.includes(c)\<close> for a one-letter \<open>c\<close>.\<close>

definition handleIncludes :: "ResizeHandle \<Rightarrow> char \<Rightarrow> bool" where
  "handleIncludes h c = (c \<in> set (handleName h))"

record Point =
  pt_x :: real
  pt_y :: real

record Coords =
  co_x :: real
  co_y :: real
  co_width :: real
  co_height :: real

record MouseEvent =
  clientX :: real
  clientY :: real

record Interaction =
  interactionState :: InteractionState
  activeHandle :: "ResizeHandle option"
  startPos :: "Point option"
  currentPos :: "Point option"
  initialMaskState :: "Mask option"

definition getRelativeCoords :: "Container option \<Rightarrow> MouseEvent \<Rightarrow> Coords" where
  "getRelativeCoords container e =
     (case container of
        None \<Rightarrow> \<lparr>co_x = 0, co_y = 0, co_width = 0, co_height = 0\<rparr>
      | Some ct \<Rightarrow>
          (let rect = boundingRect ct
           in \<lparr>co_x = clientX e - r_left rect, co_y = clientY e - r_top rect,
               co_width = r_width rect, co_height = r_height rect\<rparr>))"

text \<open>
  The handlers \<open>onAddMask\<close>, \<open>onUpdateMask\<close> and \<open>onSelectMask\<close> are optional props;
  the App component passes all three, and the model takes them as present. The three
  pointer-down handlers return the new interaction state (and the new selection).
\<close>

definition handleContainerMouseDown ::
  "EditMode \<Rightarrow> Container option \<Rightarrow> Interaction \<Rightarrow> string option \<Rightarrow> MouseEvent
     \<Rightarrow> Interaction \<times> string option" where
  "handleContainerMouseDown mode container ia sel e =
     (if mode \<noteq> MASK \<or> container = None \<or> interactionState ia \<noteq> IDLE then (ia, sel)
      else
        (let coords = getRelativeCoords container e;
             p = \<lparr>pt_x = co_x coords, pt_y = co_y coords\<rparr>
         in (ia\<lparr>startPos := Some p, currentPos := Some p, interactionState := DRAWING\<rparr>, None)))"

definition handleMaskMouseDown ::
  "Container option \<Rightarrow> Interaction \<Rightarrow> MouseEvent \<Rightarrow> Mask \<Rightarrow> Interaction \<times> string option" where
  "handleMaskMouseDown container ia e msk =
     (let coords = getRelativeCoords container e
      in (ia\<lparr>initialMaskState := Some msk,
              startPos := Some \<lparr>pt_x = co_x coords, pt_y = co_y coords\<rparr>,
              interactionState := DRAGGING\<rparr>, Some (mask_id msk)))"

definition handleResizeMouseDown ::
  "Container option \<Rightarrow> Interaction \<Rightarrow> MouseEvent \<Rightarrow> ResizeHandle \<Rightarrow> Mask \<Rightarrow> Interaction" where
  "handleResizeMouseDown container ia e h msk =
     (let coords = getRelativeCoords container e
      in ia\<lparr>initialMaskState := Some msk, activeHandle := Some h,
             startPos := Some \<lparr>pt_x = co_x coords, pt_y = co_y coords\<rparr>,
             interactionState := RESIZING\<rparr>)"

text \<open>
  The mask a drag move commits, from the snapshot taken at pointer-down and the pointer
  delta in percent of the container.
\<close>

definition dragUpdate :: "Mask \<Rightarrow> real \<Rightarrow> real \<Rightarrow> Mask" where
  "dragUpdate init dxPct dyPct =
     init\<lparr>mask_x := mask_x init + dxPct, mask_y := mask_y init + dyPct, imageSnapshot := None\<rparr>"

text \<open>
  The mask a resize move commits. The four \<open>if\<close> statements run in the source's order
  (\<open>e\<close>, \<open>s\<close>, \<open>w\<close>, \<open>n\<close>) on \<open>newX\<close>, \<open>newY\<close>, \<open>newW\<close>, \<open>newH\<close>, which start at the
  snapshot's values.
\<close>

definition resizeUpdate :: "Mask \<Rightarrow> ResizeHandle \<Rightarrow> real \<Rightarrow> real \<Rightarrow> Mask" where
  "resizeUpdate init h dxPct dyPct =
     (let newX0 = mask_x init;
          newY0 = mask_y init;
          newW0 = mask_width init;
          newH0 = mask_height init;
          newW1 = (if handleIncludes h CHR ''e'' then max (1/2) (mask_width init + dxPct) else newW0);
          newH1 = (if handleIncludes h CHR ''s'' then max (1/2) (mask_height init + dyPct) else newH0);
          proposedW = mask_width init - dxPct;
          moveW = (handleIncludes h CHR ''w'' \<and> proposedW > 1/2);
          newX = (if moveW then mask_x init + dxPct else newX0);
          newW = (if moveW then proposedW else newW1);
          proposedH = mask_height init - dyPct;
          moveH = (handleIncludes h CHR ''n'' \<and> proposedH > 1/2);
          newY = (if moveH then mask_y init + dyPct else newY0);
          newH = (if moveH then proposedH else newH1)
      in init\<lparr>mask_x := newX, mask_y := newY, mask_width := newW, mask_height := newH,
              imageSnapshot := None\<rparr>)"

text \<open>
  \<open>handleGlobalMouseMove\<close> returns the new interaction state and the mask handed to
  \<open>onUpdateMask\<close>, if any. An early \<open>return\<close> leaves the position update in place.
\<close>

definition handleGlobalMouseMove ::
  "Container option \<Rightarrow> Interaction \<Rightarrow> MouseEvent \<Rightarrow> Interaction \<times> Mask option" where
  "handleGlobalMouseMove container ia e =
     (if interactionState ia = IDLE \<or> container = None then (ia, None)
      else
        (let coords = getRelativeCoords container e;
             ia' = ia\<lparr>currentPos := Some \<lparr>pt_x = co_x coords, pt_y = co_y coords\<rparr>\<rparr>
         in case (interactionState ia, initialMaskState ia) of
              (DRAGGING, Some init) \<Rightarrow>
                (case startPos ia of
                   None \<Rightarrow> (ia', None)
                 | Some sp \<Rightarrow>
                     (let dxPct = ((co_x coords - pt_x sp) / co_width coords) * 100;
                          dyPct = ((co_y coords - pt_y sp) / co_height coords) * 100
                      in (ia', Some (dragUpdate init dxPct dyPct))))
            | (RESIZING, Some init) \<Rightarrow>
                (case activeHandle ia of
                   None \<Rightarrow> (ia', None)
                 | Some h \<Rightarrow>
                     (case startPos ia of
                        None \<Rightarrow> (ia', None)
                      | Some sp \<Rightarrow>
                          (let dxPct = ((co_x coords - pt_x sp) / co_width coords) * 100;
                               dyPct = ((co_y coords - pt_y sp) / co_height coords) * 100
                           in (ia', Some (resizeUpdate init h dxPct dyPct)))))
            | _ \<Rightarrow> (ia', None)))"

definition idleInteraction :: Interaction where
  "idleInteraction =
     \<lparr>interactionState = IDLE, activeHandle = None, startPos = None, currentPos = None,
      initialMaskState = None\<rparr>"

text \<open>
  \<open>handleGlobalMouseUp\<close> returns the interaction state after the reset and the mask
  handed to \<open>onAddMask\<close>, if any. \<open>now\<close> is the value of \<open>Date.now()\<close>.
\<close>

definition handleGlobalMouseUp ::
  "Canvas option \<Rightarrow> Container option \<Rightarrow> int \<Rightarrow> nat \<Rightarrow> Interaction
     \<Rightarrow> Interaction \<times> Mask option" where
  "handleGlobalMouseUp canvas container currentPage now ia =
     (let added =
        (case (interactionState ia, startPos ia, currentPos ia, container) of
           (DRAWING, Some sp, Some cp, Some ct) \<Rightarrow>
             (let rect = boundingRect ct;
                  rawX = min (pt_x sp) (pt_x cp);
                  rawY = min (pt_y sp) (pt_y cp);
                  rawW = \<bar>pt_x cp - pt_x sp\<bar>;
                  rawH = \<bar>pt_y cp - pt_y sp\<bar>
              in if rawW > 5 \<and> rawH > 5 then
                   (let xPct = (rawX / r_width rect) * 100;
                        yPct = (rawY / r_height rect) * 100;
                        wPct = (rawW / r_width rect) * 100;
                        hPct = (rawH / r_height rect) * 100;
                        color = getDominantColor canvas container
                                  \<lparr>pr_x = rawX, pr_y = rawY, pr_w = rawW, pr_h = rawH\<rparr>
                    in Some \<lparr>mask_id = ''mask-'' @ toStringRadix 10 now,
                             mask_x = xPct, mask_y = yPct, mask_width = wPct, mask_height = hPct,
                             mask_color = color, fillType = Solid, imageSnapshot = None,
                             pageIndex = Some (currentPage - 1)\<rparr>)
                 else None)
         | _ \<Rightarrow> None)
      in (idleInteraction, added))"

section \<open>The editor session: preview wired to the store (the App component)\<close>

record Session =
  interaction :: Interaction
  store :: Store

definition pointerMove :: "Container option \<Rightarrow> Session \<Rightarrow> MouseEvent \<Rightarrow> Session" where
  "pointerMove container ss e =
     (case handleGlobalMouseMove container (interaction ss) e of
        (ia', None) \<Rightarrow> ss\<lparr>interaction := ia'\<rparr>
      | (ia', Some u) \<Rightarrow>
          ss\<lparr>interaction := ia',
             store := (store ss)\<lparr>masks := handleUpdateMask (masks (store ss)) u\<rparr>\<rparr>)"

definition pointerUp ::
  "Canvas option \<Rightarrow> Container option \<Rightarrow> int \<Rightarrow> nat \<Rightarrow> Session \<Rightarrow> Session" where
  "pointerUp canvas container currentPage now ss =
     (case handleGlobalMouseUp canvas container currentPage now (interaction ss) of
        (ia', None) \<Rightarrow> ss\<lparr>interaction := ia'\<rparr>
      | (ia', Some m) \<Rightarrow>
          ss\<lparr>interaction := ia', store := handleAddMask currentPage (store ss) m\<rparr>)"

section \<open>Export-time colour parsing (pdfService.ts)\<close>

text \<open>
  Strings are lists of 8-bit characters; the source's strings are UTF-16, and the
  model covers the ASCII range, where both agree on length and indexing.

  \<open>parseInt(s, 16)\<close>: skip leading white space, read an optional sign, skip an optional
  \<open>0x\<close> or \<open>0X\<close>, read the longest run of hexadecimal digits; \<open>NaN\<close> (here \<open>None\<close>) when
  that run is empty.
\<close>

definition hexDigitValue :: "char \<Rightarrow> nat option" where
  "hexDigitValue c =
     (let n = (of_char c :: nat)
      in if 48 \<le> n \<and> n \<le> 57 then Some (n - 48)
         else if 97 \<le> n \<and> n \<le> 102 then Some (n - 87)
         else if 65 \<le> n \<and> n \<le> 70 then Some (n - 55)
         else None)"

definition isWhiteSpace :: "char \<Rightarrow> bool" where
  "isWhiteSpace c = ((of_char c :: nat) \<in> {9, 10, 11, 12, 13, 32})"

fun stripSign :: "string \<Rightarrow> int \<times> string" where
  "stripSign (c # cs) =
     (if c = CHR ''-'' then (-1, cs) else if c = CHR ''+'' then (1, cs) else (1, c # cs))"
| "stripSign [] = (1, [])"

fun stripHexPrefix :: "string \<Rightarrow> string" where
  "stripHexPrefix (a # b # cs) =
     (if a = CHR ''0'' \<and> (b = CHR ''x'' \<or> b = CHR ''X'') then cs else a # b # cs)"
| "stripHexPrefix cs = cs"

definition parseInt16 :: "string \<Rightarrow> int option" where
  "parseInt16 s =
     (let (sign, body) = stripSign (dropWhile isWhiteSpace s);
          digits = takeWhile (\<lambda>c. hexDigitValue c \<noteq> None) (stripHexPrefix body)
      in if digits = [] then None
         else Some (sign * int (foldl (\<lambda>a c. 16 * a + the (hexDigitValue c)) 0 digits)))"

text \<open>\<open>s.slice(a, b)\<close> for \<open>0 \<le> a \<le> b\<close>.\<close>

definition slice :: "string \<Rightarrow> nat \<Rightarrow> nat \<Rightarrow> string" where
  "slice s a b = take (b - a) (drop a s)"

record Rgb =
  rgb_r :: real
  rgb_g :: real
  rgb_b :: real

text \<open>A channel: \<open>parseInt(...) / 255\<close>, and 1 where that is \<open>NaN\<close>.\<close>

definition channel :: "string \<Rightarrow> real" where
  "channel s = (case parseInt16 s of None \<Rightarrow> 1 | Some n \<Rightarrow> real_of_int n / 255)"

definition hexToRgb :: "string option \<Rightarrow> Rgb" where
  "hexToRgb hex =
     (let safeHex0 =
            (case hex of
               None \<Rightarrow> ''#FFFFFF''
             | Some h \<Rightarrow> if take 1 h = ''#'' then h else ''#FFFFFF'');
          safeHex1 =
            (if length safeHex0 = 4
             then CHR ''#'' # [safeHex0 ! 1, safeHex0 ! 1, safeHex0 ! 2, safeHex0 ! 2,
                               safeHex0 ! 3, safeHex0 ! 3]
             else safeHex0);
          safeHex = (if length safeHex1 \<noteq> 7 then ''#FFFFFF'' else safeHex1)
      in \<lparr>rgb_r = channel (slice safeHex 1 3),
          rgb_g = channel (slice safeHex 3 5),
          rgb_b = channel (slice safeHex 5 7)\<rparr>)"

definition white :: Rgb where
  "white = \<lparr>rgb_r = 1, rgb_g = 1, rgb_b = 1\<rparr>"

section \<open>Page extraction for the detector (pdfService.ts)\<close>

text \<open>
  A loaded document has \<open>numPages\<close> pages; \<open>pdf.getPage(n)\<close> rejects a page number
  outside \<open>1 .. numPages\<close> and otherwise gives the page, which the model identifies
  with its number. \<open>getPageAsImage\<close> clamps the requested number first.
\<close>

datatype Failure = Failure string

definition getPage :: "int \<Rightarrow> int \<Rightarrow> Failure + int" where
  "getPage numPages n =
     (if 1 \<le> n \<and> n \<le> numPages then Inr n else Inl (Failure ''Invalid page request.''))"

definition safePageNumber :: "int \<Rightarrow> int \<Rightarrow> int" where
  "safePageNumber pageNumber numPages = max 1 (min pageNumber numPages)"

definition getPageAsImage_page :: "int \<Rightarrow> int \<Rightarrow> Failure + int" where
  "getPageAsImage_page numPages pageNumber = getPage numPages (safePageNumber pageNumber numPages)"

section \<open>Margin detection (geminiService.ts) and its caller (the App component)\<close>

text \<open>
  The remote call either rejects or gives a response whose \<open>text\<close> may be absent.
  \<open>JSON.parse\<close> is a parameter: \<open>None\<close> when it throws. A parsed value is \<open>null\<close>
  (reading a property of it throws), an object (a property is a number or is missing;
  the response schema asks for numbers) or any other value (every property read is
  \<open>undefined\<close>). \<open>v || 0\<close> on a number or \<open>undefined\<close> is \<open>v\<close> when present, else 0.
\<close>

datatype GenerateResult = Rejected | Response "string option"

datatype Json = JNull | JObject "string \<Rightarrow> real option" | JOther

definition orZero :: "real option \<Rightarrow> real" where
  "orZero v = (case v of None \<Rightarrow> 0 | Some r \<Rightarrow> r)"

definition zeroMargins :: CropMargins where
  "zeroMargins = \<lparr>m_top = 0, m_bottom = 0, m_left = 0, m_right = 0\<rparr>"

text \<open>
  The key check stands before the \<open>try\<close> block, so its \<open>throw\<close> leaves the function;
  everything from the remote call to the \<open>return\<close> stands inside, and the \<open>catch\<close>
  returns the zero margins. Constructing the client from a non-empty key is taken to
  succeed. The key is the module constant \<open>GEMINI_API_KEY\<close>, the empty string when
  the environment gives none.
\<close>

definition detectWatermarkMargins ::
  "string \<Rightarrow> GenerateResult \<Rightarrow> (string \<Rightarrow> Json option) \<Rightarrow> Failure + CropMargins" where
  "detectWatermarkMargins apiKey gen parse =
     (if apiKey = [] then Inl (Failure ''API Key is missing'')
      else
        (case gen of
           Rejected \<Rightarrow> Inr zeroMargins
         | Response resultText \<Rightarrow>
             if \<not> truthy resultText then Inr zeroMargins
             else
               (case parse (the resultText) of
                  None \<Rightarrow> Inr zeroMargins
                | Some JNull \<Rightarrow> Inr zeroMargins
                | Some JOther \<Rightarrow>
                    Inr \<lparr>m_top = orZero None, m_bottom = orZero None,
                         m_left = orZero None, m_right = orZero None\<rparr>
                | Some (JObject obj) \<Rightarrow>
                    Inr \<lparr>m_top = orZero (obj ''top''), m_bottom = orZero (obj ''bottom''),
                         m_left = orZero (obj ''left''), m_right = orZero (obj ''right'')\<rparr>)))"

text \<open>
  The CROP branch of \<open>handleAutoDetect\<close>, without its 90-second timer: the margins
  after the call and the alert shown, if any. A thrown error reaches the \<open>catch\<close>,
  which alerts and sets no margins.
\<close>

definition handleAutoDetectCrop ::
  "CropMargins \<Rightarrow> Failure + CropMargins \<Rightarrow> CropMargins \<times> string option" where
  "handleAutoDetectCrop margins detected =
     (case detected of
        Inl (Failure msg) \<Rightarrow>
          (margins, Some (''Auto-detection failed: '' @ (if msg = [] then ''Unknown error'' else msg)
                          @ ''. Check console for details.''))
      | Inr suggestedMargins \<Rightarrow> (suggestedMargins, None))"

section \<open>Vocabulary of the properties and sample values\<close>

text \<open>The value stored under a margin key, and the key of the opposing side.\<close>

fun marginOf :: "MarginKey \<Rightarrow> CropMargins \<Rightarrow> real" where
  "marginOf KTop mg = m_top mg"
| "marginOf KBottom mg = m_bottom mg"
| "marginOf KLeft mg = m_left mg"
| "marginOf KRight mg = m_right mg"

fun opposite :: "MarginKey \<Rightarrow> MarginKey" where
  "opposite KTop = KBottom"
| "opposite KBottom = KTop"
| "opposite KLeft = KRight"
| "opposite KRight = KLeft"

text \<open>
  The ways the margin detection fails after the key check: the remote call rejects, the
  response has no text, the text does not parse, or it parses to \<open>null\<close>.
\<close>

fun callFails :: "GenerateResult \<Rightarrow> (string \<Rightarrow> Json option) \<Rightarrow> bool" where
  "callFails Rejected parse = True"
| "callFails (Response t) parse =
     (\<not> truthy t \<or> (case parse (the t) of None \<Rightarrow> True | Some JNull \<Rightarrow> True | Some _ \<Rightarrow> False))"

text \<open>
  Sample masks: a solid mask on page index 0, a clone mask on page index 1 that holds a
  snapshot, a global clone mask without one, and a mask narrower than half a percent.
\<close>

definition sampleSolid :: Mask where
  "sampleSolid =
     \<lparr>mask_id = ''mask-1'', mask_x = 10, mask_y = 10, mask_width = 20, mask_height = 5,
      mask_color = ''#FFFFFF'', fillType = Solid, imageSnapshot = None, pageIndex = Some 0\<rparr>"

definition sampleClone :: Mask where
  "sampleClone =
     \<lparr>mask_id = ''mask-2'', mask_x = 40, mask_y = 80, mask_width = 30, mask_height = 10,
      mask_color = ''#000000'', fillType = CloneTop, imageSnapshot = Some ''data:image/png;base64,AAAA'',
      pageIndex = Some 1\<rparr>"

definition sampleGlobal :: Mask where
  "sampleGlobal =
     \<lparr>mask_id = ''mask-3'', mask_x = 5, mask_y = 90, mask_width = 10, mask_height = 4,
      mask_color = ''#112233'', fillType = CloneLeft, imageSnapshot = None, pageIndex = None\<rparr>"

definition sampleNarrow :: Mask where
  "sampleNarrow =
     \<lparr>mask_id = ''mask-4'', mask_x = 50, mask_y = 50, mask_width = 3/10, mask_height = 3/10,
      mask_color = ''#FFFFFF'', fillType = Solid, imageSnapshot = None, pageIndex = Some 0\<rparr>"

text \<open>
  A 1000 by 500 pixel container at the origin of the viewport, and a 1500 by 750 canvas
  over it whose pixel at \<open>(x, y)\<close> has red \<open>x mod 256\<close>, green \<open>y mod 256\<close> and blue
  171, so that the colour read tells where it was read.
\<close>

definition sampleContainer :: Container where
  "sampleContainer =
     \<lparr>boundingRect = \<lparr>r_left = 0, r_top = 0, r_width = 1000, r_height = 500\<rparr>,
      clientWidth = 1000, clientHeight = 500\<rparr>"

definition sampleCanvas :: Canvas where
  "sampleCanvas =
     \<lparr>cv_width = 1500, cv_height = 750, cv_context = True,
      cv_pixel = (\<lambda>x y. Some (word_of_int x, word_of_int y, 171)),
      cv_strip = (\<lambda>x y w h. Some ''data:image/png;base64,BBBB'')\<rparr>"

definition mouseAt :: "real \<Rightarrow> real \<Rightarrow> MouseEvent" where
  "mouseAt x y = \<lparr>clientX = x, clientY = y\<rparr>"

text \<open>
  A byte as two upper-case hexadecimal digits, the form in which a colour channel stands
  in a \<open>#RRGGBB\<close> string.
\<close>

definition upperHexDigit :: "nat \<Rightarrow> char" where
  "upperHexDigit d = ''0123456789ABCDEF'' ! d"

definition hexByte :: "8 word \<Rightarrow> string" where
  "hexByte w = [upperHexDigit (unat w div 16), upperHexDigit (unat w mod 16)]"

text \<open>
  The pointer delta of a move event in percent of the container, as the DRAGGING and
  RESIZING branches compute it from the start position.
\<close>

definition pointerDxPct :: "Container \<Rightarrow> Point \<Rightarrow> MouseEvent \<Rightarrow> real" where
  "pointerDxPct ct sp e =
     ((clientX e - r_left (boundingRect ct) - pt_x sp) / r_width (boundingRect ct)) * 100"

definition pointerDyPct :: "Container \<Rightarrow> Point \<Rightarrow> MouseEvent \<Rightarrow> real" where
  "pointerDyPct ct sp e =
     ((clientY e - r_top (boundingRect ct) - pt_y sp) / r_height (boundingRect ct)) * 100"

text \<open>The drawn rectangle in container pixels, from the start and the current point.\<close>

definition rawRect :: "Point \<Rightarrow> Point \<Rightarrow> PixelRect" where
  "rawRect sp cp =
     \<lparr>pr_x = min (pt_x sp) (pt_x cp), pr_y = min (pt_y sp) (pt_y cp),
      pr_w = \<bar>pt_x cp - pt_x sp\<bar>, pr_h = \<bar>pt_y cp - pt_y sp\<bar>\<rparr>"

text \<open>
  A session in the middle of a drawing gesture over the sample container: pointer-down
  on the empty canvas at \<open>(x0, y0)\<close> in MASK mode, then one move to \<open>(x1, y1)\<close>.
\<close>

definition drawSession :: "Store \<Rightarrow> real \<Rightarrow> real \<Rightarrow> real \<Rightarrow> real \<Rightarrow> Session" where
  "drawSession st x0 y0 x1 y1 =
     (let ia1 = fst (handleContainerMouseDown MASK (Some sampleContainer) idleInteraction None
                       (mouseAt x0 y0));
          ia2 = fst (handleGlobalMouseMove (Some sampleContainer) ia1 (mouseAt x1 y1))
      in \<lparr>interaction = ia2, store = st\<rparr>)"

text \<open>The interaction state right after pointer-down on a resize handle at \<open>(x0, y0)\<close>.\<close>

definition resizeStart :: "Mask \<Rightarrow> ResizeHandle \<Rightarrow> real \<Rightarrow> real \<Rightarrow> Interaction" where
  "resizeStart msk h x0 y0 =
     handleResizeMouseDown (Some sampleContainer) idleInteraction (mouseAt x0 y0) h msk"

section \<open>Frame property of the mask update\<close>

lemma handleUpdateMask_length: "length (handleUpdateMask ms u) = length ms"
  by (simp add: handleUpdateMask_def)

lemma handleUpdateMask_nth:
  "i < length ms \<Longrightarrow>
   handleUpdateMask ms u ! i = (if mask_id (ms ! i) = mask_id u then u else ms ! i)"
  by (simp add: handleUpdateMask_def)

lemma handleUpdateMask_absent:
  "mask_id u \<notin> mask_id ` set ms \<Longrightarrow> handleUpdateMask ms u = ms"
  unfolding handleUpdateMask_def by (induction ms) auto

text \<open>
  Claim C9. For every mask list and every mask value \<open>u\<close>, the update keeps the length of
  the list, puts \<open>u\<close> at exactly the positions whose stored mask has the id of \<open>u\<close>, leaves
  the mask at every other position as it was (so the order is unchanged), and is the
  identity on the list when no stored mask has that id.
\<close>

theorem handleUpdateMask_frame:
  "length (handleUpdateMask ms u) = length ms \<and>
   (\<forall>i < length ms.
      (mask_id (ms ! i) = mask_id u \<longrightarrow> handleUpdateMask ms u ! i = u) \<and>
      (mask_id (ms ! i) \<noteq> mask_id u \<longrightarrow> handleUpdateMask ms u ! i = ms ! i)) \<and>
   (mask_id u \<notin> mask_id ` set ms \<longrightarrow> handleUpdateMask ms u = ms)"
  using handleUpdateMask_absent [of u ms]
  by (simp add: handleUpdateMask_length handleUpdateMask_nth)

theorem handleUpdateMask_frame_witness:
  "handleUpdateMask [sampleSolid, sampleClone] (sampleClone\<lparr>mask_x := 41\<rparr>)
     = [sampleSolid, sampleClone\<lparr>mask_x := 41\<rparr>] \<and>
   handleUpdateMask [sampleSolid, sampleClone] sampleGlobal = [sampleSolid, sampleClone]"
proof -
  have ids: "mask_id sampleGlobal \<notin> mask_id ` set [sampleSolid, sampleClone]"
    by (simp add: sampleGlobal_def sampleSolid_def sampleClone_def)
  have absent: "handleUpdateMask [sampleSolid, sampleClone] sampleGlobal = [sampleSolid, sampleClone]"
    using handleUpdateMask_frame [of "[sampleSolid, sampleClone]" sampleGlobal] ids by blast
  have present: "handleUpdateMask [sampleSolid, sampleClone] (sampleClone\<lparr>mask_x := 41\<rparr>)
                   = [sampleSolid, sampleClone\<lparr>mask_x := 41\<rparr>]"
    by (simp add: handleUpdateMask_def sampleSolid_def sampleClone_def)
  from present absent show ?thesis by simp
qed

section \<open>Per-page selection\<close>

lemma visibleMasks_pageMasks: "visibleMasks ms currentPage = pageMasks ms (currentPage - 1)"
  by (simp add: visibleMasks_def pageMasks_def)

text \<open>
  Claim C3. For every mask list and every page index \<open>p\<close>, the selection of the export
  loop, and the selection of the preview on page \<open>p + 1\<close>, hold exactly the global masks
  and the masks scoped to \<open>p\<close>: the same masks with the same multiplicities, as a
  subsequence of the list, so in insertion order.
\<close>

theorem pageMasks_exact:
  "set (pageMasks ms p) = {m \<in> set ms. pageIndex m = None \<or> pageIndex m = Some p} \<and>
   mset (pageMasks ms p) = filter_mset (\<lambda>m. pageIndex m = None \<or> pageIndex m = Some p) (mset ms) \<and>
   subseq (pageMasks ms p) ms \<and>
   visibleMasks ms (p + 1) = pageMasks ms p"
  by (auto simp: pageMasks_def visibleMasks_def)

section \<open>Margin mutation\<close>

lemma handleChange_edited:
  "marginOf key (handleChange mg key v) =
     (if v + marginOf (opposite key) mg > 90 then 90 - marginOf (opposite key) mg else v)"
  by (cases key) (simp_all add: handleChange_def)

lemma handleChange_others:
  "k \<noteq> key \<Longrightarrow> marginOf k (handleChange mg key v) = marginOf k mg"
  by (cases key; cases k) (simp_all add: handleChange_def)

text \<open>
  Claim C6. Setting one side to \<open>v\<close> stores \<open>90\<close> minus the opposing side when \<open>v\<close> plus
  the opposing side exceeds 90, and \<open>v\<close> otherwise; after the mutation the edited side
  and its opposing side sum to at most 90; every other side keeps its value.
\<close>

theorem handleChange_clamps:
  "marginOf key (handleChange mg key v) =
     (if v + marginOf (opposite key) mg > 90 then 90 - marginOf (opposite key) mg else v) \<and>
   marginOf key (handleChange mg key v) + marginOf (opposite key) (handleChange mg key v) \<le> 90 \<and>
   (\<forall>k. k \<noteq> key \<longrightarrow> marginOf k (handleChange mg key v) = marginOf k mg)"
proof -
  have opp: "opposite key \<noteq> key" by (cases key) simp_all
  have e: "marginOf key (handleChange mg key v) =
     (if v + marginOf (opposite key) mg > 90 then 90 - marginOf (opposite key) mg else v)"
    by (rule handleChange_edited)
  have o: "marginOf (opposite key) (handleChange mg key v) = marginOf (opposite key) mg"
    using opp by (rule handleChange_others)
  have s: "marginOf key (handleChange mg key v) + marginOf (opposite key) (handleChange mg key v) \<le> 90"
    unfolding e o by simp
  from e s show ?thesis by (simp add: handleChange_others)
qed

theorem handleChange_clamps_witness:
  "handleChange \<lparr>m_top = 0, m_bottom = 40, m_left = 3, m_right = 4\<rparr> KTop 60
     = \<lparr>m_top = 50, m_bottom = 40, m_left = 3, m_right = 4\<rparr>"
proof -
  let ?mg = "\<lparr>m_top = 0, m_bottom = 40, m_left = 3, m_right = 4\<rparr>"
  note c = handleChange_clamps [of KTop ?mg 60]
  from c have t: "marginOf KTop (handleChange ?mg KTop 60) = 50"
    by simp
  from c have others: "\<forall>k. k \<noteq> KTop \<longrightarrow> marginOf k (handleChange ?mg KTop 60) = marginOf k ?mg"
    by blast
  have b: "marginOf KBottom (handleChange ?mg KTop 60) = 40"
    using others [rule_format, of KBottom] by simp
  have l: "marginOf KLeft (handleChange ?mg KTop 60) = 3"
    using others [rule_format, of KLeft] by simp
  have r: "marginOf KRight (handleChange ?mg KTop 60) = 4"
    using others [rule_format, of KRight] by simp
  from t b l r show ?thesis
    by (cases "handleChange ?mg KTop 60") simp
qed

section \<open>Page clamping before the renderer is asked\<close>

text \<open>
  Claim C10. For a document of at least one page and every requested page number, the
  number handed to the renderer is \<open>max 1 (min n numPages)\<close>, lies between 1 and the page
  count, and the renderer's page request succeeds with that page.
\<close>

theorem getPageAsImage_clamps:
  "1 \<le> numPages \<Longrightarrow>
   safePageNumber n numPages = max 1 (min n numPages) \<and>
   1 \<le> safePageNumber n numPages \<and> safePageNumber n numPages \<le> numPages \<and>
   getPageAsImage_page numPages n = Inr (safePageNumber n numPages)"
  by (simp add: safePageNumber_def getPageAsImage_page_def getPage_def)

theorem getPageAsImage_clamps_witness:
  "(1::int) \<le> 3 \<and> getPageAsImage_page 3 7 = Inr 3 \<and> getPageAsImage_page 3 (- 2) = Inr 1 \<and>
   getPageAsImage_page 3 2 = Inr 2"
proof -
  have h: "(1::int) \<le> 3" by simp
  show ?thesis
    using getPageAsImage_clamps [OF h, of 7] getPageAsImage_clamps [OF h, of "- 2"]
      getPageAsImage_clamps [OF h, of 2]
    by (simp add: safePageNumber_def)
qed

section \<open>Resizing\<close>

lemma resizing_move_commits:
  assumes "interactionState ia = RESIZING" and "initialMaskState ia = Some init"
    and "activeHandle ia = Some h" and "startPos ia = Some sp"
  shows "snd (handleGlobalMouseMove (Some ct) ia e)
           = Some (resizeUpdate init h (pointerDxPct ct sp e) (pointerDyPct ct sp e))"
  using assms
  by (simp add: handleGlobalMouseMove_def getRelativeCoords_def pointerDxPct_def
      pointerDyPct_def Let_def)

lemma resize_W:
  "mask_x (resizeUpdate init W dx dy)
     = (if mask_width init - dx > 1/2 then mask_x init + dx else mask_x init)"
  "mask_width (resizeUpdate init W dx dy)
     = (if mask_width init - dx > 1/2 then mask_width init - dx else mask_width init)"
  "mask_y (resizeUpdate init W dx dy) = mask_y init"
  "mask_height (resizeUpdate init W dx dy) = mask_height init"
  by (simp_all add: resizeUpdate_def handleIncludes_def Let_def)

lemma resize_N:
  "mask_y (resizeUpdate init N dx dy)
     = (if mask_height init - dy > 1/2 then mask_y init + dy else mask_y init)"
  "mask_height (resizeUpdate init N dx dy)
     = (if mask_height init - dy > 1/2 then mask_height init - dy else mask_height init)"
  "mask_x (resizeUpdate init N dx dy) = mask_x init"
  "mask_width (resizeUpdate init N dx dy) = mask_width init"
  by (simp_all add: resizeUpdate_def handleIncludes_def Let_def)

lemma resize_E:
  "mask_width (resizeUpdate init E dx dy) = max (1/2) (mask_width init + dx)"
  "mask_x (resizeUpdate init E dx dy) = mask_x init"
  "mask_y (resizeUpdate init E dx dy) = mask_y init"
  "mask_height (resizeUpdate init E dx dy) = mask_height init"
  by (simp_all add: resizeUpdate_def handleIncludes_def Let_def)

lemma resize_S:
  "mask_height (resizeUpdate init S dx dy) = max (1/2) (mask_height init + dy)"
  "mask_x (resizeUpdate init S dx dy) = mask_x init"
  "mask_y (resizeUpdate init S dx dy) = mask_y init"
  "mask_width (resizeUpdate init S dx dy) = mask_width init"
  by (simp_all add: resizeUpdate_def handleIncludes_def Let_def)

lemma resizeStart_fields:
  "interactionState (resizeStart msk h x0 y0) = RESIZING"
  "initialMaskState (resizeStart msk h x0 y0) = Some msk"
  "activeHandle (resizeStart msk h x0 y0) = Some h"
  "startPos (resizeStart msk h x0 y0) = Some \<lparr>pt_x = x0, pt_y = y0\<rparr>"
  by (simp_all add: resizeStart_def handleResizeMouseDown_def getRelativeCoords_def
      idleInteraction_def sampleContainer_def mouseAt_def Let_def)

text \<open>
  Claim C2, as stated, fails: the committed width is the snapshot's width whenever the
  proposal is not above one half, also when the snapshot itself is narrower than half a
  percent. A mask of width 0.3 resized with handle \<open>w\<close> by one pixel commits width 0.3.
\<close>

theorem resize_w_below_floor:
  "map_option mask_width
     (snd (handleGlobalMouseMove (Some sampleContainer) (resizeStart sampleNarrow W 500 250)
        (mouseAt 501 250))) = Some (3/10) \<and> (3/10 :: real) < 1/2"
  by (simp add: resizing_move_commits [OF resizeStart_fields] resize_W pointerDxPct_def
      sampleContainer_def mouseAt_def sampleNarrow_def)

text \<open>
  Claim C2, amended. Every pointer-move event of a RESIZING interaction commits a mask.
  With handle \<open>w\<close> (resp. \<open>n\<close>) the origin \<open>x\<close> (resp. \<open>y\<close>) moves by the pointer delta
  and the width (resp. height) becomes the proposed size when the proposed size is
  strictly above 0.5; otherwise origin and size of that axis are the snapshot's. So the
  committed size is at least 0.5 whenever the snapshot's size is, and the origin differs
  from the snapshot's only when the committed size is above 0.5. With handle \<open>e\<close>
  (resp. \<open>s\<close>) the size is the larger of 0.5 and the snapshot's size plus the delta, and
  the origin stays. The other axis is untouched by a one-letter handle.
\<close>

theorem resizing_move_floor:
  assumes "interactionState ia = RESIZING" and "initialMaskState ia = Some init"
    and "activeHandle ia = Some h" and "startPos ia = Some sp"
  shows "\<exists>u. snd (handleGlobalMouseMove (Some ct) ia e) = Some u \<and>
    (h = W \<longrightarrow>
       (if mask_width init - pointerDxPct ct sp e > 1/2
        then mask_x u = mask_x init + pointerDxPct ct sp e \<and>
             mask_width u = mask_width init - pointerDxPct ct sp e
        else mask_x u = mask_x init \<and> mask_width u = mask_width init) \<and>
       (1/2 \<le> mask_width init \<longrightarrow> 1/2 \<le> mask_width u) \<and>
       (mask_x u \<noteq> mask_x init \<longrightarrow> 1/2 < mask_width u) \<and>
       mask_y u = mask_y init \<and> mask_height u = mask_height init) \<and>
    (h = N \<longrightarrow>
       (if mask_height init - pointerDyPct ct sp e > 1/2
        then mask_y u = mask_y init + pointerDyPct ct sp e \<and>
             mask_height u = mask_height init - pointerDyPct ct sp e
        else mask_y u = mask_y init \<and> mask_height u = mask_height init) \<and>
       (1/2 \<le> mask_height init \<longrightarrow> 1/2 \<le> mask_height u) \<and>
       (mask_y u \<noteq> mask_y init \<longrightarrow> 1/2 < mask_height u) \<and>
       mask_x u = mask_x init \<and> mask_width u = mask_width init) \<and>
    (h = E \<longrightarrow>
       mask_width u = max (1/2) (mask_width init + pointerDxPct ct sp e) \<and>
       1/2 \<le> mask_width u \<and> mask_x u = mask_x init \<and>
       mask_y u = mask_y init \<and> mask_height u = mask_height init) \<and>
    (h = S \<longrightarrow>
       mask_height u = max (1/2) (mask_height init + pointerDyPct ct sp e) \<and>
       1/2 \<le> mask_height u \<and> mask_y u = mask_y init \<and>
       mask_x u = mask_x init \<and> mask_width u = mask_width init)"
proof -
  let ?u = "resizeUpdate init h (pointerDxPct ct sp e) (pointerDyPct ct sp e)"
  have c: "snd (handleGlobalMouseMove (Some ct) ia e) = Some ?u"
    using assms by (rule resizing_move_commits)
  have w: "h = W \<Longrightarrow>
       (if mask_width init - pointerDxPct ct sp e > 1/2
        then mask_x ?u = mask_x init + pointerDxPct ct sp e \<and>
             mask_width ?u = mask_width init - pointerDxPct ct sp e
        else mask_x ?u = mask_x init \<and> mask_width ?u = mask_width init) \<and>
       (1/2 \<le> mask_width init \<longrightarrow> 1/2 \<le> mask_width ?u) \<and>
       (mask_x ?u \<noteq> mask_x init \<longrightarrow> 1/2 < mask_width ?u) \<and>
       mask_y ?u = mask_y init \<and> mask_height ?u = mask_height init"
    by (simp add: resize_W)
  have n: "h = N \<Longrightarrow>
       (if mask_height init - pointerDyPct ct sp e > 1/2
        then mask_y ?u = mask_y init + pointerDyPct ct sp e \<and>
             mask_height ?u = mask_height init - pointerDyPct ct sp e
        else mask_y ?u = mask_y init \<and> mask_height ?u = mask_height init) \<and>
       (1/2 \<le> mask_height init \<longrightarrow> 1/2 \<le> mask_height ?u) \<and>
       (mask_y ?u \<noteq> mask_y init \<longrightarrow> 1/2 < mask_height ?u) \<and>
       mask_x ?u = mask_x init \<and> mask_width ?u = mask_width init"
    by (simp add: resize_N)
  have e: "h = E \<Longrightarrow>
       mask_width ?u = max (1/2) (mask_width init + pointerDxPct ct sp e) \<and>
       1/2 \<le> mask_width ?u \<and> mask_x ?u = mask_x init \<and>
       mask_y ?u = mask_y init \<and> mask_height ?u = mask_height init"
    by (simp add: resize_E)
  have s: "h = S \<Longrightarrow>
       mask_height ?u = max (1/2) (mask_height init + pointerDyPct ct sp e) \<and>
       1/2 \<le> mask_height ?u \<and> mask_y ?u = mask_y init \<and>
       mask_x ?u = mask_x init \<and> mask_width ?u = mask_width init"
    by (simp add: resize_S)
  from c w n e s show ?thesis by blast
qed

text \<open>
  Witness: the sample solid mask (x 10, width 20) grabbed at handle \<open>w\<close> at pixel 500 of
  the 1000-pixel container. A move to pixel 600 (10 percent) commits x 20 and width 10;
  a move to pixel 700 (20 percent, proposed width 0) commits the snapshot's x and width.
\<close>

theorem resizing_move_floor_witness:
  "map_option (\<lambda>u. (mask_x u, mask_width u))
     (snd (handleGlobalMouseMove (Some sampleContainer) (resizeStart sampleSolid W 500 250)
        (mouseAt 600 250))) = Some (20, 10) \<and>
   map_option (\<lambda>u. (mask_x u, mask_width u))
     (snd (handleGlobalMouseMove (Some sampleContainer) (resizeStart sampleSolid W 500 250)
        (mouseAt 700 250))) = Some (10, 20)"
proof -
  let ?ia = "resizeStart sampleSolid W 500 250"
  let ?sp = "\<lparr>pt_x = 500, pt_y = 250\<rparr>"
  note f = resizeStart_fields [of sampleSolid W 500 250]
  have d1: "pointerDxPct sampleContainer ?sp (mouseAt 600 250) = 10"
    by (simp add: pointerDxPct_def sampleContainer_def mouseAt_def)
  have d2: "pointerDxPct sampleContainer ?sp (mouseAt 700 250) = 20"
    by (simp add: pointerDxPct_def sampleContainer_def mouseAt_def)
  have g: "mask_x sampleSolid = 10" "mask_width sampleSolid = 20"
    by (simp_all add: sampleSolid_def)
  obtain u1 where u1: "snd (handleGlobalMouseMove (Some sampleContainer) ?ia (mouseAt 600 250)) = Some u1"
    and x1: "mask_x u1 = 20" and w1: "mask_width u1 = 10"
    using resizing_move_floor [OF f, where ct = sampleContainer and e = "mouseAt 600 250"]
    by (auto simp: d1 g)
  obtain u2 where u2: "snd (handleGlobalMouseMove (Some sampleContainer) ?ia (mouseAt 700 250)) = Some u2"
    and x2: "mask_x u2 = 10" and w2: "mask_width u2 = 20"
    using resizing_move_floor [OF f, where ct = sampleContainer and e = "mouseAt 700 250"]
    by (auto simp: d2 g)
  show ?thesis
    by (simp add: u1 x1 w1 u2 x2 w2)
qed

section \<open>The colour string of a sampled pixel\<close>

lemma toStringRadix16_step:
  "1 \<le> q \<Longrightarrow> d < 16 \<Longrightarrow> toStringRadix 16 (16 * q + d) = toStringRadix 16 q @ [digitChar d]"
  by (subst toStringRadix.simps) simp

lemma toStringRadix16_one: "toStringRadix 16 1 = [digitChar 1]"
  by (subst toStringRadix.simps) simp

lemma upper_digit: "d < 16 \<Longrightarrow> toUpperCaseChar (digitChar d) = upperHexDigit d"
proof -
  assume "d < 16"
  then have "d = 0 \<or> d = 1 \<or> d = 2 \<or> d = 3 \<or> d = 4 \<or> d = 5 \<or> d = 6 \<or> d = 7 \<or>
             d = 8 \<or> d = 9 \<or> d = 10 \<or> d = 11 \<or> d = 12 \<or> d = 13 \<or> d = 14 \<or> d = 15"
    by arith
  then show ?thesis
    by (elim disjE) (simp_all add: toUpperCaseChar_def digitChar_def upperHexDigit_def)
qed

lemma rgb_number:
  fixes r g b :: nat
  shows "2 ^ 24 + r * 2 ^ 16 + g * 2 ^ 8 + b =
     16 * (16 * (16 * (16 * (16 * (16 * 1 + r div 16) + r mod 16) + g div 16) + g mod 16) + b div 16) + b mod 16"
proof -
  have "r = 16 * (r div 16) + r mod 16" "g = 16 * (g div 16) + g mod 16" "b = 16 * (b div 16) + b mod 16"
    by simp_all
  then show ?thesis by (simp add: algebra_simps)
qed

lemma toStringRadix16_seven:
  assumes "d5 < 16" "d4 < 16" "d3 < 16" "d2 < 16" "d1 < 16" "d0 < 16"
  shows "toStringRadix 16
           (16 * (16 * (16 * (16 * (16 * (16 * 1 + d5) + d4) + d3) + d2) + d1) + d0)
         = map digitChar [1, d5, d4, d3, d2, d1, d0]"
proof -
  let ?q1 = "16 * 1 + d5"
  let ?q2 = "16 * ?q1 + d4"
  let ?q3 = "16 * ?q2 + d3"
  let ?q4 = "16 * ?q3 + d2"
  let ?q5 = "16 * ?q4 + d1"
  have s1: "toStringRadix 16 ?q1 = map digitChar [1, d5]"
    using toStringRadix16_step [of 1 d5] assms(1) toStringRadix16_one by simp
  have s2: "toStringRadix 16 ?q2 = map digitChar [1, d5, d4]"
    using toStringRadix16_step [of ?q1 d4] assms(2) s1 by simp
  have s3: "toStringRadix 16 ?q3 = map digitChar [1, d5, d4, d3]"
    using toStringRadix16_step [of ?q2 d3] assms(3) s2 by simp
  have s4: "toStringRadix 16 ?q4 = map digitChar [1, d5, d4, d3, d2]"
    using toStringRadix16_step [of ?q3 d2] assms(4) s3 by simp
  have s5: "toStringRadix 16 ?q5 = map digitChar [1, d5, d4, d3, d2, d1]"
    using toStringRadix16_step [of ?q4 d1] assms(5) s4 by simp
  show ?thesis
    using toStringRadix16_step [of ?q5 d0] assms(6) s5 by simp
qed

lemma rgbToHex_digits: "rgbToHex r g b = CHR ''#'' # hexByte r @ hexByte g @ hexByte b"
proof -
  have byte: "unat w < 256" for w :: "8 word"
    using unsigned_less [of w, where ?'a = nat] by simp
  have lt: "unat r div 16 < 16" "unat g div 16 < 16" "unat b div 16 < 16"
    using byte [of r] byte [of g] byte [of b] by simp_all
  have m: "unat r mod 16 < 16" "unat g mod 16 < 16" "unat b mod 16 < 16" by simp_all
  have "toStringRadix 16 (2 ^ 24 + unat r * 2 ^ 16 + unat g * 2 ^ 8 + unat b)
          = map digitChar [1, unat r div 16, unat r mod 16, unat g div 16, unat g mod 16,
              unat b div 16, unat b mod 16]"
    by (simp only: rgb_number toStringRadix16_seven [OF lt(1) m(1) lt(2) m(2) lt(3) m(3)])
  then show ?thesis
    by (simp add: rgbToHex_def hexByte_def upper_digit lt m)
qed

section \<open>Committing a drawn mask\<close>

lemma mouseUp_drawing:
  assumes "interactionState ia = DRAWING" and "startPos ia = Some sp" and "currentPos ia = Some cp"
  shows "handleGlobalMouseUp cv (Some ct) page now ia =
     (idleInteraction,
      if 5 < pr_w (rawRect sp cp) \<and> 5 < pr_h (rawRect sp cp) then
        Some \<lparr>mask_id = ''mask-'' @ toStringRadix 10 now,
              mask_x = (pr_x (rawRect sp cp) / r_width (boundingRect ct)) * 100,
              mask_y = (pr_y (rawRect sp cp) / r_height (boundingRect ct)) * 100,
              mask_width = (pr_w (rawRect sp cp) / r_width (boundingRect ct)) * 100,
              mask_height = (pr_h (rawRect sp cp) / r_height (boundingRect ct)) * 100,
              mask_color = getDominantColor cv (Some ct) (rawRect sp cp),
              fillType = Solid, imageSnapshot = None, pageIndex = Some (page - 1)\<rparr>
      else None)"
  using assms by (simp add: handleGlobalMouseUp_def rawRect_def Let_def)

lemma drawSession_fields:
  "interactionState (interaction (drawSession st x0 y0 x1 y1)) = DRAWING"
  "startPos (interaction (drawSession st x0 y0 x1 y1)) = Some \<lparr>pt_x = x0, pt_y = y0\<rparr>"
  "currentPos (interaction (drawSession st x0 y0 x1 y1)) = Some \<lparr>pt_x = x1, pt_y = y1\<rparr>"
  "store (drawSession st x0 y0 x1 y1) = st"
  by (simp_all add: drawSession_def handleContainerMouseDown_def handleGlobalMouseMove_def
      getRelativeCoords_def idleInteraction_def sampleContainer_def mouseAt_def Let_def)


lemma getDominantColor_pixel:
  "getDominantColor cv (Some ct) rect =
     (case cv of
        None \<Rightarrow> ''#FFFFFF''
      | Some c \<Rightarrow>
          if \<not> cv_context c then ''#FFFFFF''
          else
            (case cv_pixel c \<lfloor>max 0 (pr_x rect * (cv_width c / clientWidth ct))\<rfloor>
                             \<lfloor>max 0 (pr_y rect * (cv_height c / clientHeight ct))\<rfloor> of
               None \<Rightarrow> ''#FFFFFF''
             | Some (r, g, b) \<Rightarrow> CHR ''#'' # hexByte r @ hexByte g @ hexByte b))"
  by (simp add: getDominantColor_def rgbToHex_digits Let_def split: option.splits)

lemma sample_rect:
  "boundingRect sampleContainer = \<lparr>r_left = 0, r_top = 0, r_width = 1000, r_height = 500\<rparr>"
  by (simp add: sampleContainer_def)

text \<open>
  Claim C4. When pointer-up ends a DRAWING interaction (start and current point
  recorded, container mounted), the interaction returns to its idle state, and the store
  gains exactly one mask, appended at the end, if the drawn rectangle is strictly larger
  than 5 pixels on both axes, and is unchanged otherwise. The committed mask is solid and
  its page index is the current page minus one. Its colour is what \<open>getDominantColor\<close>
  samples from the drawn rectangle: the pixel of the canvas that lies under the top-left
  corner of the rectangle (the smaller of the start and current coordinate on each axis,
  scaled from container pixels to canvas pixels, not below 0, rounded down), written as
  \<open>#\<close> and the red, green and blue bytes in upper-case hexadecimal; it is white when
  there is no canvas, no drawing context, or the pixel read fails.
\<close>

theorem drawing_pointer_up:
  assumes "interactionState (interaction ss) = DRAWING"
    and "startPos (interaction ss) = Some sp" and "currentPos (interaction ss) = Some cp"
  shows "interaction (pointerUp cv (Some ct) page now ss) = idleInteraction \<and>
     (if 5 < \<bar>pt_x cp - pt_x sp\<bar> \<and> 5 < \<bar>pt_y cp - pt_y sp\<bar>
      then \<exists>m. masks (store (pointerUp cv (Some ct) page now ss)) = masks (store ss) @ [m] \<and>
               fillType m = Solid \<and>
               mask_color m = getDominantColor cv (Some ct) (rawRect sp cp) \<and>
               mask_color m =
                 (case cv of
                    None \<Rightarrow> ''#FFFFFF''
                  | Some c \<Rightarrow>
                      if \<not> cv_context c then ''#FFFFFF''
                      else
                        (case cv_pixel c
                                \<lfloor>max 0 (min (pt_x sp) (pt_x cp) * (cv_width c / clientWidth ct))\<rfloor>
                                \<lfloor>max 0 (min (pt_y sp) (pt_y cp) * (cv_height c / clientHeight ct))\<rfloor> of
                           None \<Rightarrow> ''#FFFFFF''
                         | Some (r, g, b) \<Rightarrow> CHR ''#'' # hexByte r @ hexByte g @ hexByte b)) \<and>
               pageIndex m = Some (page - 1)
      else masks (store (pointerUp cv (Some ct) page now ss)) = masks (store ss))"
proof (cases "5 < \<bar>pt_x cp - pt_x sp\<bar> \<and> 5 < \<bar>pt_y cp - pt_y sp\<bar>")
  case True
  have px: "pr_x (rawRect sp cp) = min (pt_x sp) (pt_x cp)"
    and py: "pr_y (rawRect sp cp) = min (pt_y sp) (pt_y cp)"
    by (simp_all add: rawRect_def)
  have col: "getDominantColor cv (Some ct) (rawRect sp cp) =
                 (case cv of
                    None \<Rightarrow> ''#FFFFFF''
                  | Some c \<Rightarrow>
                      if \<not> cv_context c then ''#FFFFFF''
                      else
                        (case cv_pixel c
                                \<lfloor>max 0 (min (pt_x sp) (pt_x cp) * (cv_width c / clientWidth ct))\<rfloor>
                                \<lfloor>max 0 (min (pt_y sp) (pt_y cp) * (cv_height c / clientHeight ct))\<rfloor> of
                           None \<Rightarrow> ''#FFFFFF''
                         | Some (r, g, b) \<Rightarrow> CHR ''#'' # hexByte r @ hexByte g @ hexByte b))"
    by (simp only: getDominantColor_pixel px py)
  have up: "pointerUp cv (Some ct) page now ss =
      ss\<lparr>interaction := idleInteraction,
         store := handleAddMask page (store ss)
           \<lparr>mask_id = ''mask-'' @ toStringRadix 10 now,
            mask_x = (pr_x (rawRect sp cp) / r_width (boundingRect ct)) * 100,
            mask_y = (pr_y (rawRect sp cp) / r_height (boundingRect ct)) * 100,
            mask_width = (pr_w (rawRect sp cp) / r_width (boundingRect ct)) * 100,
            mask_height = (pr_h (rawRect sp cp) / r_height (boundingRect ct)) * 100,
            mask_color = getDominantColor cv (Some ct) (rawRect sp cp),
            fillType = Solid, imageSnapshot = None, pageIndex = Some (page - 1)\<rparr>\<rparr>"
    using True mouseUp_drawing [OF assms, of cv ct page now]
    by (simp add: pointerUp_def rawRect_def)
  show ?thesis
    using True by (simp add: up handleAddMask_def Let_def col [symmetric])
next
  case False
  then show ?thesis
    using mouseUp_drawing [OF assms, of cv ct page now]
    by (auto simp add: pointerUp_def rawRect_def)
qed

lemma sampleCanvas_fields:
  "cv_context sampleCanvas" "cv_width sampleCanvas = 1500" "cv_height sampleCanvas = 750"
  "cv_pixel sampleCanvas x y = Some (word_of_int x, word_of_int y, 171)"
  by (simp_all add: sampleCanvas_def)

lemma sampleContainer_fields:
  "clientWidth sampleContainer = 1000" "clientHeight sampleContainer = 500"
  by (simp_all add: sampleContainer_def)

lemma hexBytes: "hexByte 150 = ''96''" "hexByte 171 = ''AB''"
  by (simp_all add: hexByte_def upperHexDigit_def)

lemma sample_pixel:
  "getDominantColor (Some sampleCanvas) (Some sampleContainer)
     \<lparr>pr_x = 100, pr_y = 100, pr_w = 10, pr_h = 10\<rparr> = ''#9696AB''"
  by (simp add: getDominantColor_pixel sampleCanvas_fields sampleContainer_fields hexBytes)

text \<open>
  Witness: over the 1000 by 500 container, on page 2, a drag from (100, 100) to
  (103, 103) leaves the store as it was; a drag from (100, 100) to (110, 110), and the
  same drag backwards, appends one solid mask of page index 1 whose colour is the one of
  canvas pixel (150, 150), which differs from the colour of pixel (0, 0).
\<close>

theorem drawing_pointer_up_witness:
  "masks (store (pointerUp (Some sampleCanvas) (Some sampleContainer) 2 1700000000123
      (drawSession \<lparr>masks = [sampleSolid], selectedMaskId = None\<rparr> 100 100 103 103)))
     = [sampleSolid] \<and>
   masks (store (pointerUp (Some sampleCanvas) (Some sampleContainer) 2 1700000000123
      (drawSession \<lparr>masks = [sampleSolid], selectedMaskId = None\<rparr> 100 100 110 110)))
     = [sampleSolid,
        \<lparr>mask_id = ''mask-1700000000123'', mask_x = 10, mask_y = 20, mask_width = 1,
         mask_height = 2, mask_color = ''#9696AB'', fillType = Solid, imageSnapshot = None,
         pageIndex = Some 1\<rparr>] \<and>
   masks (store (pointerUp (Some sampleCanvas) (Some sampleContainer) 2 1700000000123
      (drawSession \<lparr>masks = [sampleSolid], selectedMaskId = None\<rparr> 110 110 100 100)))
     = [sampleSolid,
        \<lparr>mask_id = ''mask-1700000000123'', mask_x = 10, mask_y = 20, mask_width = 1,
         mask_height = 2, mask_color = ''#9696AB'', fillType = Solid, imageSnapshot = None,
         pageIndex = Some 1\<rparr>] \<and>
   cv_pixel sampleCanvas 150 150 = Some (150, 150, 171) \<and>
   cv_pixel sampleCanvas 0 0 = Some (0, 0, 171)"
proof -
  let ?st = "\<lparr>masks = [sampleSolid], selectedMaskId = None\<rparr>"
  let ?small = "drawSession ?st 100 100 103 103"
  let ?big = "drawSession ?st 100 100 110 110"
  let ?rev = "drawSession ?st 110 110 100 100"
  let ?new = "\<lparr>mask_id = ''mask-1700000000123'', mask_x = 10, mask_y = 20, mask_width = 1,
         mask_height = 2, mask_color = ''#9696AB'', fillType = Solid, imageSnapshot = None,
         pageIndex = Some 1\<rparr>"
  note fs = drawSession_fields(1-3) [of ?st 100 100 103 103]
  note fb = drawSession_fields(1-3) [of ?st 100 100 110 110]
  note fr = drawSession_fields(1-3) [of ?st 110 110 100 100]
  have a: "masks (store (pointerUp (Some sampleCanvas) (Some sampleContainer) 2 1700000000123 ?small))
             = [sampleSolid]"
    using drawing_pointer_up [OF fs, where cv = "Some sampleCanvas" and ct = sampleContainer
        and page = 2 and now = 1700000000123]
    by (simp add: drawSession_fields)
  obtain m where m: "masks (store (pointerUp (Some sampleCanvas) (Some sampleContainer) 2
        1700000000123 ?big)) = [sampleSolid, m]"
    and mc: "mask_color m = ''#9696AB''" and mp: "pageIndex m = Some 1" and mf: "fillType m = Solid"
    using drawing_pointer_up [OF fb, where cv = "Some sampleCanvas" and ct = sampleContainer
        and page = 2 and now = 1700000000123]
    by (auto simp: drawSession_fields sampleCanvas_fields sampleContainer_fields hexBytes)
  have b: "masks (store (pointerUp (Some sampleCanvas) (Some sampleContainer) 2 1700000000123 ?big))
     = [sampleSolid, ?new]"
    by (simp add: pointerUp_def mouseUp_drawing [OF fb] rawRect_def
        drawSession_fields handleAddMask_def sample_pixel sample_rect
        digitChar_def toStringRadix.simps Let_def)
  have c: "masks (store (pointerUp (Some sampleCanvas) (Some sampleContainer) 2 1700000000123 ?rev))
     = [sampleSolid, ?new]"
    by (simp add: pointerUp_def mouseUp_drawing [OF fr] rawRect_def
        drawSession_fields handleAddMask_def sample_pixel sample_rect
        digitChar_def toStringRadix.simps Let_def)
  have d: "cv_pixel sampleCanvas 150 150 = Some (150, 150, 171)"
    "cv_pixel sampleCanvas 0 0 = Some (0, 0, 171)"
    by (simp_all add: sampleCanvas_def)
  from a b c d show ?thesis by simp
qed

section \<open>Snapshot backfill\<close>

lemma backfillWrite_cases:
  "w \<in> set (backfillWrite cv m) \<Longrightarrow>
     fillType m \<noteq> Solid \<and> \<not> truthy (imageSnapshot m) \<and>
     (\<exists>s. s \<noteq> [] \<and> captureMaskSnapshot cv m = Some s \<and> w = m\<lparr>imageSnapshot := Some s\<rparr>)"
proof -
  assume w: "w \<in> set (backfillWrite cv m)"
  then have n: "needsSnapshot m"
    by (cases "needsSnapshot m") (simp_all add: backfillWrite_def)
  from w n obtain s where s: "captureMaskSnapshot cv m = Some s"
    by (cases "captureMaskSnapshot cv m") (simp_all add: backfillWrite_def)
  from w n s have ne: "s \<noteq> []"
    by (cases "s = []") (simp_all add: backfillWrite_def)
  from w n s ne have "w = m\<lparr>imageSnapshot := Some s\<rparr>"
    by (simp add: backfillWrite_def)
  with n s ne show ?thesis
    unfolding needsSnapshot_def by blast
qed

lemma backfillWrite_present:
  "fillType m \<noteq> Solid \<longrightarrow> truthy (imageSnapshot m) \<Longrightarrow> backfillWrite cv m = []"
  by (auto simp: backfillWrite_def needsSnapshot_def)

text \<open>
  Claim C7. Every write of the backfill goes to a visible mask whose fill type is not
  solid and whose snapshot is absent (falsy, as the source tests it), and stores that
  mask with a captured, non-empty snapshot; nothing is written while a render is in
  flight. When every visible non-solid mask already has a snapshot, a run performs no
  write and leaves the store as it was.
\<close>

theorem backfill_idempotent:
  "(\<forall>w \<in> set (backfillWrites cv loading ms p).
      \<not> loading \<and>
      (\<exists>m \<in> set (visibleMasks ms p).
         fillType m \<noteq> Solid \<and> \<not> truthy (imageSnapshot m) \<and>
         (\<exists>s. s \<noteq> [] \<and> captureMaskSnapshot cv m = Some s \<and> w = m\<lparr>imageSnapshot := Some s\<rparr>))) \<and>
   ((\<forall>m \<in> set (visibleMasks ms p). fillType m \<noteq> Solid \<longrightarrow> truthy (imageSnapshot m)) \<longrightarrow>
      backfillWrites cv loading ms p = [] \<and> runBackfill cv loading ms p = ms)"
proof (intro conjI ballI impI)
  fix w assume "w \<in> set (backfillWrites cv loading ms p)"
  then show "\<not> loading" by (auto simp: backfillWrites_def split: if_splits)
next
  fix w assume w: "w \<in> set (backfillWrites cv loading ms p)"
  then obtain m where "m \<in> set (visibleMasks ms p)" "w \<in> set (backfillWrite cv m)"
    by (auto simp: backfillWrites_def split: if_splits)
  then show "\<exists>m \<in> set (visibleMasks ms p).
         fillType m \<noteq> Solid \<and> \<not> truthy (imageSnapshot m) \<and>
         (\<exists>s. s \<noteq> [] \<and> captureMaskSnapshot cv m = Some s \<and> w = m\<lparr>imageSnapshot := Some s\<rparr>)"
    using backfillWrite_cases by blast
next
  assume a: "\<forall>m \<in> set (visibleMasks ms p). fillType m \<noteq> Solid \<longrightarrow> truthy (imageSnapshot m)"
  then have "\<forall>m \<in> set (visibleMasks ms p). backfillWrite cv m = []"
    using backfillWrite_present by blast
  then show w: "backfillWrites cv loading ms p = []"
    by (simp add: backfillWrites_def)
  then show "runBackfill cv loading ms p = ms"
    by (simp add: runBackfill_def)
qed

lemma sample_first_run:
  "runBackfill (Some sampleCanvas) False [sampleSolid, sampleClone, sampleGlobal] 2
     = [sampleSolid, sampleClone,
        sampleGlobal\<lparr>imageSnapshot := Some ''data:image/png;base64,BBBB''\<rparr>]"
  by (simp add: runBackfill_def backfillWrites_def backfillWrite_def visibleMasks_def
      needsSnapshot_def truthy_def captureMaskSnapshot_def sampleCanvas_def sampleSolid_def
      sampleClone_def sampleGlobal_def handleUpdateMask_def Let_def)

text \<open>
  Witness: on page 2 the first run fills the snapshot of the global clone mask; the
  second run, on the store the first one left, writes nothing and changes nothing.
\<close>

theorem backfill_idempotent_witness:
  "backfillWrites (Some sampleCanvas) False
     (runBackfill (Some sampleCanvas) False [sampleSolid, sampleClone, sampleGlobal] 2) 2 = [] \<and>
   runBackfill (Some sampleCanvas) False
     (runBackfill (Some sampleCanvas) False [sampleSolid, sampleClone, sampleGlobal] 2) 2
     = runBackfill (Some sampleCanvas) False [sampleSolid, sampleClone, sampleGlobal] 2"
proof -
  let ?ms = "[sampleSolid, sampleClone,
              sampleGlobal\<lparr>imageSnapshot := Some ''data:image/png;base64,BBBB''\<rparr>]"
  have present: "\<forall>m \<in> set (visibleMasks ?ms 2). fillType m \<noteq> Solid \<longrightarrow> truthy (imageSnapshot m)"
    by (simp add: visibleMasks_def truthy_def sampleSolid_def sampleClone_def sampleGlobal_def)
  have "backfillWrites (Some sampleCanvas) False ?ms 2 = [] \<and>
        runBackfill (Some sampleCanvas) False ?ms 2 = ?ms"
    using backfill_idempotent [of "Some sampleCanvas" False ?ms 2] present by blast
  then show ?thesis
    by (simp add: sample_first_run)
qed

section \<open>Export-time colour parsing\<close>

lemma channel_FF: "channel ''FF'' = 1"
  by (simp add: channel_def parseInt16_def hexDigitValue_def isWhiteSpace_def)

lemma hexToRgb_fallback: "hexToRgb (Some ''#FFFFFF'') = white"
  by (simp add: hexToRgb_def slice_def channel_FF white_def)

lemma hexToRgb_undefined: "hexToRgb None = white"
  by (simp add: hexToRgb_def slice_def channel_FF white_def)

lemma hexToRgb_no_hash: "take 1 h \<noteq> ''#'' \<Longrightarrow> hexToRgb (Some h) = white"
  by (simp add: hexToRgb_def slice_def channel_FF white_def)

lemma hexToRgb_wrong_length:
  "length h \<noteq> 4 \<Longrightarrow> length h \<noteq> 7 \<Longrightarrow> hexToRgb (Some h) = white"
  by (simp add: hexToRgb_def slice_def channel_FF white_def)

lemma hexToRgb_short:
  "hexToRgb (Some [CHR ''#'', a, b, c]) = hexToRgb (Some [CHR ''#'', a, a, b, b, c, c])"
  by (simp add: hexToRgb_def slice_def)

lemma hexToRgb_short_value:
  "hexToRgb (Some [CHR ''#'', a, b, c]) = \<lparr>rgb_r = channel [a, a], rgb_g = channel [b, b], rgb_b = channel [c, c]\<rparr>"
  by (simp add: hexToRgb_def slice_def)

text \<open>
  Claim C8, as stated, fails for the short form: a four-character string that starts
  with \<open>#\<close> is expanded by doubling its three characters and then parsed, so \<open>#000\<close>
  gives black, not white.
\<close>

theorem hexToRgb_short_black:
  "hexToRgb (Some ''#000'') = \<lparr>rgb_r = 0, rgb_g = 0, rgb_b = 0\<rparr> \<and> hexToRgb (Some ''#000'') \<noteq> white"
  by (simp add: hexToRgb_def channel_def slice_def parseInt16_def hexDigitValue_def
      isWhiteSpace_def white_def)

text \<open>
  Claim C8, amended. \<open>hexToRgb\<close> is a total function (the source has no failing
  step). It gives white for an undefined colour, for a string that does not start with
  \<open>#\<close>, and for a string whose length is neither 4 nor 7. A short form \<open>#abc\<close> is read
  as \<open>#aabbcc\<close>: each channel is parsed from the doubled character (and is 1 where
  that does not parse), so \<open>#FFF\<close> gives white.
\<close>

theorem hexToRgb_tolerant:
  "hexToRgb None = white \<and>
   (take 1 h \<noteq> ''#'' \<longrightarrow> hexToRgb (Some h) = white) \<and>
   (length h \<noteq> 4 \<and> length h \<noteq> 7 \<longrightarrow> hexToRgb (Some h) = white) \<and>
   hexToRgb (Some [CHR ''#'', a, b, c]) = hexToRgb (Some [CHR ''#'', a, a, b, b, c, c]) \<and>
   hexToRgb (Some [CHR ''#'', a, b, c])
     = \<lparr>rgb_r = channel [a, a], rgb_g = channel [b, b], rgb_b = channel [c, c]\<rparr> \<and>
   hexToRgb (Some ''#FFF'') = white"
  using hexToRgb_undefined hexToRgb_no_hash [of h] hexToRgb_wrong_length [of h]
    hexToRgb_short [of a b c] hexToRgb_short_value [of a b c]
  by (simp add: hexToRgb_short_value [of "CHR ''F''" "CHR ''F''" "CHR ''F''"] channel_FF white_def)

text \<open>
  Witness: two strings without \<open>#\<close>, a six-character string, and the short form
  \<open>#F00\<close>, which gives red.
\<close>

theorem hexToRgb_tolerant_witness:
  "hexToRgb (Some ''FFFFFF'') = white \<and> hexToRgb (Some ''112233'') = white \<and>
   hexToRgb (Some ''#12345'') = white \<and>
   hexToRgb (Some ''#F00'') = \<lparr>rgb_r = 1, rgb_g = 0, rgb_b = 0\<rparr>"
proof -
  have a: "hexToRgb (Some ''FFFFFF'') = white"
    using hexToRgb_tolerant [of "''FFFFFF''"] by simp
  have b: "hexToRgb (Some ''112233'') = white"
    using hexToRgb_tolerant [of "''112233''"] by simp
  have c: "hexToRgb (Some ''#12345'') = white"
    using hexToRgb_tolerant [of "''#12345''"] by simp
  have ch: "channel ''FF'' = 1" "channel ''00'' = 0"
    by (simp_all add: channel_def parseInt16_def hexDigitValue_def isWhiteSpace_def)
  have "hexToRgb (Some ''#F00'')
          = \<lparr>rgb_r = channel ''FF'', rgb_g = channel ''00'', rgb_b = channel ''00''\<rparr>"
    using hexToRgb_tolerant [of "[]" "CHR ''F''" "CHR ''0''" "CHR ''0''"] by blast
  then have d: "hexToRgb (Some ''#F00'') = \<lparr>rgb_r = 1, rgb_g = 0, rgb_b = 0\<rparr>"
    by (simp only: ch)
  from a b c d show ?thesis by simp
qed

section \<open>Margin detection failures\<close>

lemma detect_no_key: "detectWatermarkMargins [] gen parse = Inl (Failure ''API Key is missing'')"
  by (simp add: detectWatermarkMargins_def)

lemma detect_fails:
  "apiKey \<noteq> [] \<Longrightarrow> callFails gen parse \<Longrightarrow> detectWatermarkMargins apiKey gen parse = Inr zeroMargins"
  by (cases gen) (auto simp: detectWatermarkMargins_def split: option.splits Json.splits)

lemma detect_total:
  "apiKey \<noteq> [] \<Longrightarrow> \<exists>m. detectWatermarkMargins apiKey gen parse = Inr m"
  by (cases gen) (auto simp: detectWatermarkMargins_def split: option.splits Json.splits)

text \<open>
  Claim C5, as stated, fails for one cause of failure: with no API key configured the
  function throws before its \<open>try\<close> block, the caller's \<open>catch\<close> shows an alert, and
  the stored margins stay as they were, which need not be zero.
\<close>

theorem detect_missing_key_propagates:
  "detectWatermarkMargins [] Rejected (\<lambda>t. None) = Inl (Failure ''API Key is missing'') \<and>
   fst (handleAutoDetectCrop \<lparr>m_top = 10, m_bottom = 5, m_left = 0, m_right = 0\<rparr>
          (detectWatermarkMargins [] Rejected (\<lambda>t. None)))
     = \<lparr>m_top = 10, m_bottom = 5, m_left = 0, m_right = 0\<rparr> \<and>
   \<lparr>m_top = 10, m_bottom = 5, m_left = 0, m_right = 0\<rparr> \<noteq> zeroMargins"
  by (simp add: detectWatermarkMargins_def handleAutoDetectCrop_def zeroMargins_def)

text \<open>
  Claim C5, amended. With an API key configured, every failure of the remote call or of
  reading its response (the call rejects, the response has no text, the text does not
  parse, it parses to \<open>null\<close>) makes \<open>detectWatermarkMargins\<close> return the all-zero
  margins, which the caller stores without an alert; with a key the function never
  propagates an error. With no key it throws \<open>API Key is missing\<close>; the caller alerts
  and keeps the margins it had.
\<close>

theorem detect_fallback:
  "(apiKey \<noteq> [] \<and> callFails gen parse \<longrightarrow>
      detectWatermarkMargins apiKey gen parse = Inr zeroMargins \<and>
      handleAutoDetectCrop mg (detectWatermarkMargins apiKey gen parse) = (zeroMargins, None)) \<and>
   (apiKey \<noteq> [] \<longrightarrow> (\<exists>m. detectWatermarkMargins apiKey gen parse = Inr m)) \<and>
   (apiKey = [] \<longrightarrow>
      detectWatermarkMargins apiKey gen parse = Inl (Failure ''API Key is missing'') \<and>
      fst (handleAutoDetectCrop mg (detectWatermarkMargins apiKey gen parse)) = mg \<and>
      snd (handleAutoDetectCrop mg (detectWatermarkMargins apiKey gen parse)) \<noteq> None)"
  using detect_fails [of apiKey gen parse] detect_total [of apiKey gen parse]
  by (auto simp: detect_no_key handleAutoDetectCrop_def)

text \<open>
  Witness: the four failures with a key present, and the missing key.
\<close>

theorem detect_fallback_witness:
  "detectWatermarkMargins ''key'' Rejected (\<lambda>t. None) = Inr zeroMargins \<and>
   detectWatermarkMargins ''key'' (Response None) (\<lambda>t. None) = Inr zeroMargins \<and>
   detectWatermarkMargins ''key'' (Response (Some ''{oops'')) (\<lambda>t. None) = Inr zeroMargins \<and>
   detectWatermarkMargins ''key'' (Response (Some ''null'')) (\<lambda>t. Some JNull) = Inr zeroMargins \<and>
   detectWatermarkMargins [] Rejected (\<lambda>t. None) = Inl (Failure ''API Key is missing'')"
proof -
  have a: "detectWatermarkMargins ''key'' Rejected (\<lambda>t. None) = Inr zeroMargins"
    using detect_fallback [of "''key''" Rejected "\<lambda>t. None"] by simp
  have b: "detectWatermarkMargins ''key'' (Response None) (\<lambda>t. None) = Inr zeroMargins"
    using detect_fallback [of "''key''" "Response None" "\<lambda>t. None"] by (simp add: truthy_def)
  have c: "detectWatermarkMargins ''key'' (Response (Some ''{oops'')) (\<lambda>t. None) = Inr zeroMargins"
    using detect_fallback [of "''key''" "Response (Some ''{oops'')" "\<lambda>t. None"] by (simp add: truthy_def)
  have d: "detectWatermarkMargins ''key'' (Response (Some ''null'')) (\<lambda>t. Some JNull) = Inr zeroMargins"
    using detect_fallback [of "''key''" "Response (Some ''null'')" "\<lambda>t. Some JNull"] by (simp add: truthy_def)
  have e: "detectWatermarkMargins [] Rejected (\<lambda>t. None) = Inl (Failure ''API Key is missing'')"
    using detect_fallback [of "[]" Rejected "\<lambda>t. None"] by simp
  from a b c d e show ?thesis by simp
qed

section \<open>Snapshot invalidation on update\<close>

lemma dragUpdate_clears: "imageSnapshot (dragUpdate init dx dy) = None"
  by (simp add: dragUpdate_def)

lemma resizeUpdate_clears: "imageSnapshot (resizeUpdate init h dx dy) = None"
  by (simp add: resizeUpdate_def Let_def)

lemma fillType_change_clears: "imageSnapshot (maskChangeUpdate sel (FFillType ft)) = None"
  by (simp add: maskChangeUpdate_def)

lemma numeric_change_keeps:
  "f = FX v \<or> f = FY v \<or> f = FWidth v \<or> f = FHeight v \<Longrightarrow>
   imageSnapshot (maskChangeUpdate sel f) = imageSnapshot sel"
  by (auto simp: maskChangeUpdate_def)

lemma scope_toggle_keeps: "imageSnapshot (scopeToggleUpdate page sel) = imageSnapshot sel"
  by (simp add: scopeToggleUpdate_def Let_def)

lemma sample_selected:
  "selectedMask \<lparr>masks = [sampleSolid, sampleClone], selectedMaskId = Some ''mask-2''\<rparr>
     = Some sampleClone"
  by (simp add: selectedMask_def sampleSolid_def sampleClone_def)

text \<open>
  Claim C1 does not hold of the code. Drag moves, resize moves and the fill-type
  selector store the mask with its snapshot cleared (the three lemmas above), but the
  numeric fields of the control panel go through the same \<open>handleMaskChange\<close> and keep
  it: with the sample clone mask selected, setting \<open>x\<close> to 41 stores the mask at the new
  position with the snapshot captured at the old one. Toggling the scope of that mask
  changes its page index and keeps the snapshot as well.
\<close>

theorem numeric_field_keeps_snapshot:
  "masks (handleMaskChange \<lparr>masks = [sampleSolid, sampleClone], selectedMaskId = Some ''mask-2''\<rparr>
            (FX 41))
     = [sampleSolid, sampleClone\<lparr>mask_x := 41\<rparr>] \<and>
   mask_x sampleClone = 40 \<and>
   imageSnapshot (sampleClone\<lparr>mask_x := 41\<rparr>) = Some ''data:image/png;base64,AAAA'' \<and>
   masks (toggleMaskScope 2 \<lparr>masks = [sampleSolid, sampleClone], selectedMaskId = Some ''mask-2''\<rparr>)
     = [sampleSolid, sampleClone\<lparr>pageIndex := None\<rparr>] \<and>
   pageIndex sampleClone = Some 1 \<and>
   imageSnapshot (sampleClone\<lparr>pageIndex := None\<rparr>) = Some ''data:image/png;base64,AAAA''"
proof -
  let ?st = "\<lparr>masks = [sampleSolid, sampleClone], selectedMaskId = Some ''mask-2''\<rparr>"
  have ids: "mask_id sampleSolid \<noteq> mask_id sampleClone"
    by (simp add: sampleSolid_def sampleClone_def)
  have upd: "handleUpdateMask [sampleSolid, sampleClone] u = [sampleSolid, u]"
    if "mask_id u = mask_id sampleClone" for u
    using that ids by (simp add: handleUpdateMask_def)
  have a: "masks (handleMaskChange ?st (FX 41)) = [sampleSolid, sampleClone\<lparr>mask_x := 41\<rparr>]"
    by (simp add: handleMaskChange_def sample_selected maskChangeUpdate_def upd)
  have b: "masks (toggleMaskScope 2 ?st) = [sampleSolid, sampleClone\<lparr>pageIndex := None\<rparr>]"
    by (simp add: toggleMaskScope_def sample_selected scopeToggleUpdate_def upd Let_def)
       (simp add: sampleClone_def)
  have c: "mask_x sampleClone = 40" "pageIndex sampleClone = Some 1"
    "imageSnapshot (sampleClone\<lparr>mask_x := 41\<rparr>) = Some ''data:image/png;base64,AAAA''"
    "imageSnapshot (sampleClone\<lparr>pageIndex := None\<rparr>) = Some ''data:image/png;base64,AAAA''"
    by (simp_all add: sampleClone_def)
  from a b c show ?thesis by simp
qed

end
